theory Spec2Isabelle
  imports Main "HOL-Library.Sublist" "HOL-Library.Word"
begin

unbundle bit_operations_syntax

section \<open>Resource identifiers\<close>

text \<open>
  A resource identifier is the five-component value of the URI library the shims are
  written against. The library is not part of the repository; the three operations the
  router uses (\<open>URI.from\<close>, \<open>toString(true)\<close>, \<open>fsPath\<close>) are modelled here after the
  library's documented behaviour, and no result below depends on the rendered text of
  \<open>toString\<close> or \<open>fsPath\<close>.
\<close>

record uri =
  scheme :: string
  authority :: string
  path :: string
  query :: string
  fragment :: string

record js_error =
  err_name :: "string option"
  err_code :: "string option"
  err_message :: string

text \<open>\<open>new Error(message)\<close>: the name is inherited from the prototype, there is no code.\<close>

definition new_Error :: "string \<Rightarrow> js_error" where
  "new_Error msg = \<lparr>err_name = Some ''Error'', err_code = None, err_message = msg\<rparr>"

definition word_char :: "char \<Rightarrow> bool" where
  "word_char c \<longleftrightarrow>
     c \<in> set ''abcdefghijklmnopqrstuvwxyzABCDEFGHIJKLMNOPQRSTUVWXYZ0123456789_''"

text \<open>The library's scheme pattern \<^verbatim>\<open>/^\w[\w\d+.-]*$/\<close>.\<close>

definition schemePattern :: "string \<Rightarrow> bool" where
  "schemePattern s =
     (case s of [] \<Rightarrow> False
      | c # cs \<Rightarrow> word_char c \<and> list_all (\<lambda>d. word_char d \<or> d \<in> set ''+.-'') cs)"

definition schemeFix :: "string \<Rightarrow> string" where
  "schemeFix s = (if s = [] then ''file'' else s)"

definition referenceResolution :: "string \<Rightarrow> string \<Rightarrow> string" where
  "referenceResolution sch p =
     (if sch = ''https'' \<or> sch = ''http'' \<or> sch = ''file''
      then (case p of [] \<Rightarrow> ''/''
            | c # cs \<Rightarrow> if c \<noteq> CHR ''/'' then CHR ''/'' # p else p)
      else p)"

definition validateUri :: "uri \<Rightarrow> js_error option" where
  "validateUri u =
     (if scheme u \<noteq> [] \<and> \<not> schemePattern (scheme u)
      then Some (new_Error ''[UriError]: Scheme contains illegal characters.'')
      else if path u \<noteq> [] \<and> authority u \<noteq> [] \<and> take 1 (path u) \<noteq> ''/''
      then Some (new_Error ''[UriError]: If a URI contains an authority component, then the path component must either be empty or begin with a slash character'')
      else if path u \<noteq> [] \<and> authority u = [] \<and> take 2 (path u) = ''//''
      then Some (new_Error ''[UriError]: If a URI does not contain an authority component, then the path cannot begin with two slash characters'')
      else None)"

text \<open>
  \<open>URI.from(components)\<close>: a new identifier is constructed, with the scheme defaulted,
  the path resolved against the root for the three hierarchical schemes, and the result
  validated; an invalid combination throws.
\<close>

definition URI_from :: "uri \<Rightarrow> js_error + uri" where
  "URI_from c =
     (let s = schemeFix (scheme c);
          u = \<lparr>scheme = s, authority = authority c,
               path = referenceResolution s (path c),
               query = query c, fragment = fragment c\<rparr>
      in case validateUri u of Some e \<Rightarrow> Inl e | None \<Rightarrow> Inr u)"

definition uri_toString :: "uri \<Rightarrow> string" where
  "uri_toString u =
     (if scheme u = [] then [] else scheme u @ '':'') @
     (if authority u \<noteq> [] \<or> scheme u = ''file'' then ''//'' else []) @
     authority u @ path u @
     (if query u = [] then [] else ''?'' @ query u) @
     (if fragment u = [] then [] else ''#'' @ fragment u)"

definition fsPath :: "uri \<Rightarrow> string" where
  "fsPath u =
     (if authority u \<noteq> [] \<and> 1 < length (path u) \<and> scheme u = ''file''
      then ''//'' @ authority u @ path u
      else path u)"

section \<open>Error taxonomy\<close>

abbreviation (input) "FileSystemProviderErrorCode_FileExists \<equiv> ''EntryExists''"
abbreviation (input) "FileSystemProviderErrorCode_FileNotFound \<equiv> ''EntryNotFound''"
abbreviation (input) "FileSystemProviderErrorCode_FileNotADirectory \<equiv> ''EntryNotADirectory''"
abbreviation (input) "FileSystemProviderErrorCode_FileIsADirectory \<equiv> ''EntryIsADirectory''"
abbreviation (input) "FileSystemProviderErrorCode_NoPermissions \<equiv> ''NoPermissions''"
abbreviation (input) "FileSystemProviderErrorCode_Unavailable \<equiv> ''Unavailable''"
abbreviation (input) "FileSystemProviderErrorCode_Unknown \<equiv> ''Unknown''"

definition markAsFileSystemProviderError :: "js_error \<Rightarrow> string \<Rightarrow> js_error" where
  "markAsFileSystemProviderError error code =
     error\<lparr>err_name :=
       Some (if code \<noteq> [] then code @ '' (FileSystemError)'' else ''FileSystemError'')\<rparr>"

datatype message_arg = Message string | MessageUri uri

text \<open>
  The constructor \<open>FileSystemError(uriOrMessage?, code = Unknown, terminator?)\<close>. The
  third argument is the static method that built the error; only its \<open>name\<close> is read.
\<close>

definition FileSystemError_new ::
  "message_arg option \<Rightarrow> string option \<Rightarrow> string option \<Rightarrow> js_error" where
  "FileSystemError_new uriOrMessage code terminator_name =
     markAsFileSystemProviderError
       \<lparr>err_name = Some ''Error'',
        err_code = Some (case terminator_name of Some n \<Rightarrow> n | None \<Rightarrow> ''Unknown''),
        err_message = (case uriOrMessage of None \<Rightarrow> []
                       | Some (MessageUri u) \<Rightarrow> uri_toString u
                       | Some (Message m) \<Rightarrow> m)\<rparr>
       (case code of Some c \<Rightarrow> c | None \<Rightarrow> FileSystemProviderErrorCode_Unknown)"

definition FileSystemError_FileExists :: "message_arg option \<Rightarrow> js_error" where
  "FileSystemError_FileExists messageOrUri =
     FileSystemError_new messageOrUri (Some FileSystemProviderErrorCode_FileExists) (Some ''FileExists'')"

definition FileSystemError_FileNotFound :: "message_arg option \<Rightarrow> js_error" where
  "FileSystemError_FileNotFound messageOrUri =
     FileSystemError_new messageOrUri (Some FileSystemProviderErrorCode_FileNotFound) (Some ''FileNotFound'')"

definition FileSystemError_FileNotADirectory :: "message_arg option \<Rightarrow> js_error" where
  "FileSystemError_FileNotADirectory messageOrUri =
     FileSystemError_new messageOrUri (Some FileSystemProviderErrorCode_FileNotADirectory) (Some ''FileNotADirectory'')"

definition FileSystemError_FileIsADirectory :: "message_arg option \<Rightarrow> js_error" where
  "FileSystemError_FileIsADirectory messageOrUri =
     FileSystemError_new messageOrUri (Some FileSystemProviderErrorCode_FileIsADirectory) (Some ''FileIsADirectory'')"

definition FileSystemError_NoPermissions :: "message_arg option \<Rightarrow> js_error" where
  "FileSystemError_NoPermissions messageOrUri =
     FileSystemError_new messageOrUri (Some FileSystemProviderErrorCode_NoPermissions) (Some ''NoPermissions'')"

definition FileSystemError_Unavailable :: "message_arg option \<Rightarrow> js_error" where
  "FileSystemError_Unavailable messageOrUri =
     FileSystemError_new messageOrUri (Some FileSystemProviderErrorCode_Unavailable) (Some ''Unavailable'')"

text \<open>\<open>s.split(' ')[0]\<close>: the part of \<open>s\<close> before its first space (all of \<open>s\<close> without one).\<close>

definition split_space_first :: "string \<Rightarrow> string" where
  "split_space_first s = takeWhile (\<lambda>c. c \<noteq> CHR '' '') s"

text \<open>\<open>((err?.name ?? '') as string).split(' ')[0]\<close>\<close>

definition name_code :: "js_error \<Rightarrow> string" where
  "name_code err = split_space_first (case err_name err of Some n \<Rightarrow> n | None \<Rightarrow> [])"

section \<open>File types, stats and backends\<close>

abbreviation (input) "FileType_Unknown \<equiv> (0::int)"
abbreviation (input) "FileType_File \<equiv> (1::int)"
abbreviation (input) "FileType_Directory \<equiv> (2::int)"
abbreviation (input) "FileType_SymbolicLink \<equiv> (64::int)"

record FileStat =
  type :: int
  mtime :: int
  ctime :: int
  size' :: int
  permissions :: "int option"

type_synonym bytes = "8 word list"

record write_options =
  create :: bool
  overwrite :: bool

text \<open>
  A backend (\<open>vscode.FileSystemProvider\<close>) is an object of four asynchronous methods.
  Each is a function of the backend's own state \<open>'b\<close>: it returns either the thrown
  value or the result, and the state it leaves behind.
\<close>

record 'b FileSystemProvider =
  impl_stat :: "uri \<Rightarrow> 'b \<Rightarrow> (js_error + FileStat) \<times> 'b"
  impl_readFile :: "uri \<Rightarrow> 'b \<Rightarrow> (js_error + bytes) \<times> 'b"
  impl_writeFile :: "uri \<Rightarrow> bytes \<Rightarrow> write_options \<Rightarrow> 'b \<Rightarrow> (js_error + unit) \<times> 'b"
  impl_createDirectory :: "uri \<Rightarrow> 'b \<Rightarrow> (js_error + unit) \<times> 'b"

record 'b registration =
  impl :: "'b FileSystemProvider"
  isReadonly :: bool

text \<open>The private map \<open>_fsProvider\<close> of the filesystem shim.\<close>

type_synonym 'b registry = "string \<rightharpoonup> 'b registration"



text \<open>The three operations of the platform's \<open>fs\<close> module that the router calls.\<close>

record 'd node_fs =
  fs_readFile :: "string \<Rightarrow> 'd \<Rightarrow> (js_error + bytes) \<times> 'd"
  fs_mkdir_recursive :: "string \<Rightarrow> 'd \<Rightarrow> (js_error + unit) \<times> 'd"
  fs_writeFile :: "string \<Rightarrow> bytes \<Rightarrow> 'd \<Rightarrow> (js_error + unit) \<times> 'd"

section \<open>The filesystem shim\<close>

definition withProvider :: "'b registry \<Rightarrow> string \<Rightarrow> js_error + 'b registration option" where
  "withProvider fsProvider sch =
     (if fsProvider sch = None
      then Inl (new_Error (''Unsupported URI scheme '' @ sch))
      else Inr (fsProvider sch))"

definition fromResource :: "uri option \<Rightarrow> uri \<Rightarrow> string" where
  "fromResource extensionUri u =
     (case extensionUri of
        Some ext \<Rightarrow>
          if scheme u = scheme ext \<and> authority u = authority ext
             \<and> prefix (path ext @ ''/typescript/lib.'') (path u)
             \<and> suffix ''.d.ts'' (path u)
          then path u
          else ''/'' @ scheme u @ ''/'' @ authority u @ path u
      | None \<Rightarrow> ''/'' @ scheme u @ ''/'' @ authority u @ path u)"

text \<open>\<^verbatim>\<open>p.replace(/\/[^/]*$/, '')\<close>: the last slash and what follows it are removed.\<close>

definition strip_last_segment :: "string \<Rightarrow> string" where
  "strip_last_segment p =
     (if CHR ''/'' \<in> set p then rev (tl (dropWhile (\<lambda>c. c \<noteq> CHR ''/'') (rev p))) else p)"

definition dirname :: "uri \<Rightarrow> js_error + uri" where
  "dirname u = URI_from (u\<lparr>path := strip_last_segment (path u)\<rparr>)"

text \<open>The message of the error thrown for an ancestor that is not a directory.\<close>

definition not_a_directory_message :: "uri \<Rightarrow> string" where
  "not_a_directory_message directory =
     ''Unable to create folder '' @ [CHR 0x27] @
     (if scheme directory = ''file'' then fsPath directory else uri_toString directory) @
     [CHR 0x27] @ '' that already exists but is not a directory''"

text \<open>
  The body of the \<open>try\<close> block of the walk: \<open>stat\<close> the directory; a stat without the
  Directory bit throws \<open>FileExists\<close> inside the block, so that the \<open>catch\<close> clause
  receives it like any error of the backend.
\<close>

definition walk_try :: "'b FileSystemProvider \<Rightarrow> uri \<Rightarrow> 'b \<Rightarrow> (js_error + unit) \<times> 'b" where
  "walk_try provider directory b =
     (case impl_stat provider directory b of
        (Inl err, b') \<Rightarrow> (Inl err, b')
      | (Inr st, b') \<Rightarrow>
          if type st AND FileType_Directory = 0
          then (Inl (FileSystemError_FileExists
                       (Some (Message (not_a_directory_message directory)))), b')
          else (Inr (), b'))"

text \<open>
  The \<open>while (pat != '/')\<close> loop. \<open>None\<close> is a loop that never ends. \<open>pat\<close> is the
  path of the target and is not assigned in the loop.
\<close>

partial_function (option) mkdirp_walk ::
  "'b FileSystemProvider \<Rightarrow> string \<Rightarrow> uri \<Rightarrow> uri list \<Rightarrow> 'b \<Rightarrow> ((js_error + uri list) \<times> 'b) option"
where
  "mkdirp_walk provider pat directory toCreate b =
     (if pat = ''/'' then Some (Inr toCreate, b)
      else case walk_try provider directory b of
             (Inr _, b') \<Rightarrow> Some (Inr toCreate, b')
           | (Inl err, b') \<Rightarrow>
               if err_code err \<noteq> Some FileSystemProviderErrorCode_FileNotFound
                  \<and> name_code err \<noteq> FileSystemProviderErrorCode_FileNotFound
               then Some (Inl err, b')
               else (case URI_from (directory\<lparr>path := path directory @ ''/''\<rparr>) of
                       Inl e \<Rightarrow> Some (Inl e, b')
                     | Inr u \<Rightarrow>
                         (case dirname directory of
                            Inl e \<Rightarrow> Some (Inl e, b')
                          | Inr d \<Rightarrow> mkdirp_walk provider pat d (toCreate @ [u]) b')))"

declare mkdirp_walk.simps [code]

text \<open>
  The creation loop \<open>for (i = toCreate.length - 1; i >= 0; i--)\<close>; the counter of the
  model is \<open>i + 1\<close>.
\<close>

fun mkdirp_create :: "'b FileSystemProvider \<Rightarrow> uri list \<Rightarrow> nat \<Rightarrow> 'b \<Rightarrow> (js_error + unit) \<times> 'b" where
  "mkdirp_create provider toCreate 0 b = (Inr (), b)"
| "mkdirp_create provider toCreate (Suc i) b =
     (case impl_createDirectory provider (toCreate ! i) b of
        (Inr _, b') \<Rightarrow> mkdirp_create provider toCreate i b'
      | (Inl err, b') \<Rightarrow>
          if err_code err \<noteq> Some FileSystemProviderErrorCode_FileExists
             \<and> name_code err \<noteq> FileSystemProviderErrorCode_FileExists
          then (Inl err, b')
          else mkdirp_create provider toCreate i b')"

definition mkdirp :: "'b FileSystemProvider \<Rightarrow> uri \<Rightarrow> 'b \<Rightarrow> ((js_error + unit) \<times> 'b) option" where
  "mkdirp provider u b =
     (let pat = path u in
      case dirname u of
        Inl e \<Rightarrow> Some (Inl e, b)
      | Inr directory \<Rightarrow>
          (case mkdirp_walk provider pat directory [] b of
             None \<Rightarrow> None
           | Some (Inl e, b') \<Rightarrow> Some (Inl e, b')
           | Some (Inr toCreate, b') \<Rightarrow>
               Some (mkdirp_create provider toCreate (length toCreate) b')))"




text \<open>
  The router's \<open>readFile\<close> and \<open>writeFile\<close>, over the state of the backends and the state
  of the local disk. \<open>slice()\<close> copies the bytes, which are values here.
\<close>

definition readFile ::
  "'d node_fs \<Rightarrow> 'b registry \<Rightarrow> uri option \<Rightarrow> uri \<Rightarrow> 'b \<times> 'd \<Rightarrow> (js_error + bytes) \<times> ('b \<times> 'd)" where
  "readFile nfs fsProvider extensionUri u w =
     (case withProvider fsProvider (scheme u) of
        Inl e \<Rightarrow> (Inl e, w)
      | Inr (Some provider) \<Rightarrow>
          (case impl_readFile (impl provider) u (fst w) of (r, b') \<Rightarrow> (r, (b', snd w)))
      | Inr None \<Rightarrow>
          (case fs_readFile nfs (fromResource extensionUri u) (snd w) of
             (r, d') \<Rightarrow> (r, (fst w, d'))))"

definition writeFile ::
  "'d node_fs \<Rightarrow> 'b registry \<Rightarrow> uri option \<Rightarrow> uri \<Rightarrow> bytes \<Rightarrow> 'b \<times> 'd
     \<Rightarrow> ((js_error + unit) \<times> ('b \<times> 'd)) option" where
  "writeFile nfs fsProvider extensionUri u content w =
     (case withProvider fsProvider (scheme u) of
        Inl e \<Rightarrow> Some (Inl e, w)
      | Inr provider \<Rightarrow>
          if provider \<noteq> None \<and> \<not> isReadonly (the provider)
          then (case mkdirp (impl (the provider)) u (fst w) of
                  None \<Rightarrow> None
                | Some (Inl e, b') \<Rightarrow> Some (Inl e, (b', snd w))
                | Some (Inr _, b') \<Rightarrow>
                    (case impl_writeFile (impl (the provider)) u content
                            \<lparr>create = True, overwrite = True\<rparr> b' of
                       (r, b'') \<Rightarrow> Some (r, (b'', snd w))))
          else (let pat = fromResource extensionUri u in
                case fs_mkdir_recursive nfs (strip_last_segment pat) (snd w) of
                  (Inl e, d') \<Rightarrow> Some (Inl e, (fst w, d'))
                | (Inr _, d') \<Rightarrow>
                    (case fs_writeFile nfs pat content d' of
                       (r, d'') \<Rightarrow> Some (r, (fst w, d'')))))"

section \<open>Service composition and teardown\<close>

text \<open>
  A disposable is an object with a \<open>dispose()\<close> method: run on the state of the
  session, it may throw, and leaves a state behind either way.
\<close>

type_synonym 'w disposable = "'w \<Rightarrow> js_error option \<times> 'w"

text \<open>Two statements in sequence: what the first throws ends the block.\<close>

definition then_do :: "'w disposable \<Rightarrow> 'w disposable \<Rightarrow> 'w disposable" where
  "then_do f g w = (case f w of (Some e, w') \<Rightarrow> (Some e, w') | (None, w') \<Rightarrow> g w')"

text \<open>\<open>ds.forEach((d) => { d.dispose() })\<close>\<close>

fun forEach_dispose :: "'w disposable list \<Rightarrow> 'w disposable" where
  "forEach_dispose [] w = (None, w)"
| "forEach_dispose (d # ds) w =
     (case d w of (Some e, w') \<Rightarrow> (Some e, w') | (None, w') \<Rightarrow> forEach_dispose ds w')"

text \<open>
  The constructed services, each by its \<open>dispose\<close> method (their classes are the
  capability shims, outside the kernel), the subscriptions of the context object, and
  the handles that \<open>initializeShimServices\<close> keeps in \<open>FsProviderDisposables\<close>.
\<close>

record 'w services =
  configurationService :: "'w disposable"
  languageFeaturesService :: "'w disposable"
  commandsService :: "'w disposable"
  workspaceService :: "'w disposable"
  windowService :: "'w disposable"

record 'w service_bundle =
  bundle_services :: "'w services"
  context_subscriptions :: "'w disposable list"
  FsProviderDisposables :: "'w disposable list"

definition dispose :: "'w service_bundle \<Rightarrow> 'w disposable" where
  "dispose bundle =
     then_do (configurationService (bundle_services bundle))
    (then_do (languageFeaturesService (bundle_services bundle))
    (then_do (commandsService (bundle_services bundle))
    (then_do (workspaceService (bundle_services bundle))
    (then_do (windowService (bundle_services bundle))
    (then_do (forEach_dispose (context_subscriptions bundle))
             (forEach_dispose (FsProviderDisposables bundle)))))))"

text \<open>The steps of \<open>dispose\<close>, in the order of the source text.\<close>

definition disposal_steps :: "'w service_bundle \<Rightarrow> 'w disposable list" where
  "disposal_steps bundle =
     [configurationService (bundle_services bundle),
      languageFeaturesService (bundle_services bundle),
      commandsService (bundle_services bundle),
      workspaceService (bundle_services bundle),
      windowService (bundle_services bundle)]
     @ context_subscriptions bundle @ FsProviderDisposables bundle"







section \<open>Observing the calls a backend receives\<close>

datatype call =
  Stat uri | ReadFile uri | WriteFile uri bytes write_options | CreateDirectory uri

text \<open>
  \<open>traced q\<close> is the backend \<open>q\<close> with every call it receives appended to a log kept
  beside its state.
\<close>

definition traced :: "'b FileSystemProvider \<Rightarrow> (call list \<times> 'b) FileSystemProvider" where
  "traced q =
     \<lparr>impl_stat = (\<lambda>u tb. case impl_stat q u (snd tb) of
                     (r, s') \<Rightarrow> (r, (fst tb @ [Stat u], s'))),
      impl_readFile = (\<lambda>u tb. case impl_readFile q u (snd tb) of
                     (r, s') \<Rightarrow> (r, (fst tb @ [ReadFile u], s'))),
      impl_writeFile = (\<lambda>u content opts tb. case impl_writeFile q u content opts (snd tb) of
                     (r, s') \<Rightarrow> (r, (fst tb @ [WriteFile u content opts], s'))),
      impl_createDirectory = (\<lambda>u tb. case impl_createDirectory q u (snd tb) of
                     (r, s') \<Rightarrow> (r, (fst tb @ [CreateDirectory u], s')))\<rparr>"

text \<open>\<open>err?.code === code || name.split(' ')[0] === code\<close>: how the walk reads a code.\<close>

definition has_code :: "js_error \<Rightarrow> string \<Rightarrow> bool" where
  "has_code err c \<longleftrightarrow> err_code err = Some c \<or> name_code err = c"

text \<open>
  \<open>climb provider k directory toCreate b\<close>: the state of the walk after \<open>k\<close> rounds in
  each of which \<open>stat\<close> failed with \<open>FileNotFound\<close>; \<open>None\<close> when one of the \<open>k\<close>
  rounds went otherwise.
\<close>

fun climb ::
  "'b FileSystemProvider \<Rightarrow> nat \<Rightarrow> uri \<Rightarrow> uri list \<Rightarrow> 'b \<Rightarrow> (uri \<times> uri list \<times> 'b) option" where
  "climb provider 0 directory toCreate b = Some (directory, toCreate, b)"
| "climb provider (Suc k) directory toCreate b =
     (case impl_stat provider directory b of
        (Inr _, _) \<Rightarrow> None
      | (Inl err, b') \<Rightarrow>
          if has_code err FileSystemProviderErrorCode_FileNotFound
          then (case URI_from (directory\<lparr>path := path directory @ ''/''\<rparr>) of
                  Inl _ \<Rightarrow> None
                | Inr u \<Rightarrow>
                    (case dirname directory of
                       Inl _ \<Rightarrow> None
                     | Inr d \<Rightarrow> climb provider k d (toCreate @ [u]) b'))
          else None)"


section \<open>Sample backends, disks and sessions\<close>

definition mk_uri :: "string \<Rightarrow> string \<Rightarrow> string \<Rightarrow> uri" where
  "mk_uri sch auth p = \<lparr>scheme = sch, authority = auth, path = p, query = [], fragment = []\<rparr>"

definition stat_of_type :: "int \<Rightarrow> FileStat" where
  "stat_of_type t = \<lparr>type = t, mtime = 0, ctime = 0, size' = 0, permissions = None\<rparr>"

text \<open>A backend in which nothing exists, not even a root.\<close>

definition missing_backend :: "unit FileSystemProvider" where
  "missing_backend =
     \<lparr>impl_stat = (\<lambda>u b. (Inl (FileSystemError_FileNotFound (Some (MessageUri u))), b)),
      impl_readFile = (\<lambda>u b. (Inl (FileSystemError_FileNotFound (Some (MessageUri u))), b)),
      impl_writeFile = (\<lambda>u content opts b. (Inr (), b)),
      impl_createDirectory = (\<lambda>u b. (Inr (), b))\<rparr>"

text \<open>
  A backend whose state lists the paths that exist with their file type; it creates
  directories one level at a time and reports an existing entry as \<open>FileExists\<close>.
\<close>

definition entry_path :: "string \<Rightarrow> string" where
  "entry_path p = (if p \<noteq> [] \<and> last p = CHR ''/'' then butlast p else p)"

definition table_backend :: "((string \<times> int) list) FileSystemProvider" where
  "table_backend =
     \<lparr>impl_stat = (\<lambda>u t. case map_of t (entry_path (path u)) of
                     None \<Rightarrow> (Inl (FileSystemError_FileNotFound (Some (MessageUri u))), t)
                   | Some ty \<Rightarrow> (Inr (stat_of_type ty), t)),
      impl_readFile = (\<lambda>u t. (Inl (FileSystemError_FileNotFound (Some (MessageUri u))), t)),
      impl_writeFile = (\<lambda>u content opts t. (Inr (), t @ [(entry_path (path u), FileType_File)])),
      impl_createDirectory = (\<lambda>u t. case map_of t (entry_path (path u)) of
                     None \<Rightarrow> (Inr (), t @ [(entry_path (path u), FileType_Directory)])
                   | Some _ \<Rightarrow> (Inl (FileSystemError_FileExists (Some (MessageUri u))), t))\<rparr>"

datatype disk_call = FsReadFile string | FsMkdir string | FsWriteFile string bytes

text \<open>A local disk that logs its calls; every file reads as the bytes 1, 2, 3.\<close>

definition logging_disk :: "(disk_call list) node_fs" where
  "logging_disk =
     \<lparr>fs_readFile = (\<lambda>p d. (Inr [1, 2, 3], d @ [FsReadFile p])),
      fs_mkdir_recursive = (\<lambda>p d. (Inr (), d @ [FsMkdir p])),
      fs_writeFile = (\<lambda>p content d. (Inr (), d @ [FsWriteFile p content]))\<rparr>"

text \<open>Disposables over a session that is the list of the steps that ran.\<close>

definition step_ok :: "string \<Rightarrow> (string list) disposable" where
  "step_ok label w = (None, w @ [label])"

definition step_throws :: "string \<Rightarrow> (string list) disposable" where
  "step_throws label w = (Some (new_Error label), w @ [label])"

definition sample_bundle :: "(string list) disposable \<Rightarrow> (string list) service_bundle" where
  "sample_bundle configuration =
     \<lparr>bundle_services =
        \<lparr>configurationService = configuration,
         languageFeaturesService = step_ok ''languageFeatures'',
         commandsService = step_ok ''commands'',
         workspaceService = step_ok ''workspace'',
         windowService = step_ok ''window''\<rparr>,
      context_subscriptions = [step_ok ''subscription''],
      FsProviderDisposables = [step_ok ''http'', step_ok ''https'']\<rparr>"

definition readonly_registry :: "(call list \<times> (string \<times> int) list) registry" where
  "readonly_registry = [''ro'' \<mapsto> \<lparr>impl = traced table_backend, isReadonly = True\<rparr>]"




section \<open>Auxiliary facts\<close>

lemmas FileSystemError_defs =
  FileSystemError_new_def markAsFileSystemProviderError_def
  FileSystemError_FileExists_def FileSystemError_FileNotFound_def
  FileSystemError_FileNotADirectory_def FileSystemError_FileIsADirectory_def
  FileSystemError_NoPermissions_def FileSystemError_Unavailable_def

lemma forEach_dispose_append:
  "forEach_dispose (xs @ ys) w = then_do (forEach_dispose xs) (forEach_dispose ys) w"
  by (induction xs arbitrary: w) (auto simp: then_do_def split: prod.splits option.splits)

lemma dispose_forEach: "dispose bundle w = forEach_dispose (disposal_steps bundle) w"
proof -
  have "forEach_dispose (disposal_steps bundle) = dispose bundle"
    unfolding disposal_steps_def dispose_def
    by (rule ext) (simp add: forEach_dispose_append then_do_def split: prod.splits option.splits)
  then show ?thesis by simp
qed

lemma forEach_dispose_stops:
  "forEach_dispose xs w = (None, w1) \<Longrightarrow> d w1 = (Some e, w2)
     \<Longrightarrow> forEach_dispose (xs @ d # ys) w = (Some e, w2)"
  by (simp add: forEach_dispose_append then_do_def)


lemma FileNotFound_missing:
  "has_code (FileSystemError_FileNotFound m) ''EntryNotFound''"
  by (simp add: has_code_def name_code_def split_space_first_def FileSystemError_defs)

lemma walk_try_error:
  "impl_stat p d b = (Inl err, b') \<Longrightarrow> walk_try p d b = (Inl err, b')"
  by (simp add: walk_try_def)

lemma walk_try_directory:
  "impl_stat p d b = (Inr st, b') \<Longrightarrow> type st AND 2 \<noteq> 0 \<Longrightarrow> walk_try p d b = (Inr (), b')"
  by (simp add: walk_try_def)


lemma walk_stops_at_directory:
  assumes "pat \<noteq> ''/''" and "impl_stat p d b = (Inr st, b')" and "type st AND 2 \<noteq> 0"
  shows "mkdirp_walk p pat d tc b = Some (Inr tc, b')"
  using assms by (subst mkdirp_walk.simps) (simp add: walk_try_directory)


lemma walk_climb:
  assumes "pat \<noteq> ''/''"
  shows "climb p k d tc b = Some (d', tc', b')
           \<Longrightarrow> mkdirp_walk p pat d tc b = mkdirp_walk p pat d' tc' b'"
proof (induction k arbitrary: d tc b)
  case 0
  then show ?case by simp
next
  case (Suc k)
  from Suc.prems obtain err b1 u d1 where
    st: "impl_stat p d b = (Inl err, b1)" and
    nf: "has_code err ''EntryNotFound''" and
    u: "URI_from (d\<lparr>path := path d @ ''/''\<rparr>) = Inr u" and
    d1: "dirname d = Inr d1" and
    rest: "climb p k d1 (tc @ [u]) b1 = Some (d', tc', b')"
    by (auto split: prod.splits sum.splits if_splits)
  have "mkdirp_walk p pat d tc b = mkdirp_walk p pat d1 (tc @ [u]) b1"
    using assms nf u d1 walk_try_error [OF st]
    by (subst mkdirp_walk.simps) (auto simp: has_code_def)
  with Suc.IH [OF rest] show ?case by simp
qed




lemma missing_walk_try:
  "walk_try missing_backend d b = (Inl (FileSystemError_FileNotFound (Some (MessageUri d))), b)"
  by (simp add: walk_try_def missing_backend_def)

lemma memfs_dirname_a:
  "dirname (mk_uri ''memfs'' [] ''/a'') = Inr (mk_uri ''memfs'' [] [])"
  by (simp add: dirname_def mk_uri_def strip_last_segment_def URI_from_def schemeFix_def
      referenceResolution_def validateUri_def schemePattern_def word_char_def)

lemma memfs_dirname_root:
  "dirname (mk_uri ''memfs'' [] []) = Inr (mk_uri ''memfs'' [] [])"
  by (simp add: dirname_def mk_uri_def strip_last_segment_def URI_from_def schemeFix_def
      referenceResolution_def validateUri_def schemePattern_def word_char_def)

lemma memfs_dirname_target:
  "dirname (mk_uri ''memfs'' [] ''/a/b.txt'') = Inr (mk_uri ''memfs'' [] ''/a'')"
  by (simp add: dirname_def mk_uri_def strip_last_segment_def URI_from_def schemeFix_def
      referenceResolution_def validateUri_def schemePattern_def word_char_def)

lemma memfs_slash_a:
  "URI_from ((mk_uri ''memfs'' [] ''/a'')\<lparr>path := path (mk_uri ''memfs'' [] ''/a'') @ ''/''\<rparr>)
     = Inr (mk_uri ''memfs'' [] ''/a/'')"
  by (simp add: mk_uri_def URI_from_def schemeFix_def
      referenceResolution_def validateUri_def schemePattern_def word_char_def)

lemma memfs_slash_root:
  "URI_from ((mk_uri ''memfs'' [] [])\<lparr>path := path (mk_uri ''memfs'' [] []) @ ''/''\<rparr>)
     = Inr (mk_uri ''memfs'' [] ''/'')"
  by (simp add: mk_uri_def URI_from_def schemeFix_def
      referenceResolution_def validateUri_def schemePattern_def word_char_def)

lemma missing_walk_no_result:
  assumes "mkdirp_walk provider pat directory toCreate b = Some y"
  shows "\<not> (provider = missing_backend \<and> pat = ''/a/b.txt''
            \<and> (directory = mk_uri ''memfs'' [] ''/a'' \<or> directory = mk_uri ''memfs'' [] []))"
proof (rule mkdirp_walk.raw_induct
    [where P = "\<lambda>provider pat directory toCreate b y.
       \<not> (provider = missing_backend \<and> pat = ''/a/b.txt''
            \<and> (directory = mk_uri ''memfs'' [] ''/a'' \<or> directory = mk_uri ''memfs'' [] []))",
     OF _ assms])
  fix f :: "unit FileSystemProvider \<Rightarrow> string \<Rightarrow> uri \<Rightarrow> uri list \<Rightarrow> unit
              \<Rightarrow> ((js_error + uri list) \<times> unit) option"
  fix provider pat directory toCreate b y
  assume IH: "\<And>provider pat directory toCreate b y.
     f provider pat directory toCreate b = Some y \<Longrightarrow>
       \<not> (provider = missing_backend \<and> pat = ''/a/b.txt''
            \<and> (directory = mk_uri ''memfs'' [] ''/a'' \<or> directory = mk_uri ''memfs'' [] []))"
  assume step: "(if pat = ''/'' then Some (Inr toCreate, b)
      else case walk_try provider directory b of
           (Inl err, b') \<Rightarrow>
             if err_code err \<noteq> Some ''EntryNotFound'' \<and> name_code err \<noteq> ''EntryNotFound''
             then Some (Inl err, b')
             else (case URI_from (directory\<lparr>path := path directory @ ''/''\<rparr>) of
                  Inl e \<Rightarrow> Some (Inl e, b')
                  | Inr u \<Rightarrow>
                      (case dirname directory of Inl e \<Rightarrow> Some (Inl e, b')
                      | Inr d \<Rightarrow> f provider pat d (toCreate @ [u]) b'))
           | (Inr x, b') \<Rightarrow> Some (Inr toCreate, b')) = Some y"
  show "\<not> (provider = missing_backend \<and> pat = ''/a/b.txt''
            \<and> (directory = mk_uri ''memfs'' [] ''/a'' \<or> directory = mk_uri ''memfs'' [] []))"
  proof
    assume inv: "provider = missing_backend \<and> pat = ''/a/b.txt''
            \<and> (directory = mk_uri ''memfs'' [] ''/a'' \<or> directory = mk_uri ''memfs'' [] [])"
    have nf: "\<And>m. name_code (FileSystemError_FileNotFound m) = ''EntryNotFound''"
      by (simp add: name_code_def split_space_first_def FileSystemError_defs)
    from inv have "directory = mk_uri ''memfs'' [] ''/a'' \<or> directory = mk_uri ''memfs'' [] []"
      by simp
    then show False
    proof
      assume d: "directory = mk_uri ''memfs'' [] ''/a''"
      from step inv d
      have "f missing_backend ''/a/b.txt'' (mk_uri ''memfs'' [] [])
              (toCreate @ [mk_uri ''memfs'' [] ''/a/'']) b = Some y"
        by (simp add: missing_walk_try memfs_slash_a memfs_dirname_a nf)
      from IH [OF this] show False by simp
    next
      assume d: "directory = mk_uri ''memfs'' [] []"
      from step inv d
      have "f missing_backend ''/a/b.txt'' (mk_uri ''memfs'' [] [])
              (toCreate @ [mk_uri ''memfs'' [] ''/'']) b = Some y"
        by (simp add: missing_walk_try memfs_slash_root memfs_dirname_root nf)
      from IH [OF this] show False by simp
    qed
  qed
qed








lemmas URI_defs =
  dirname_def mk_uri_def strip_last_segment_def URI_from_def schemeFix_def
  referenceResolution_def validateUri_def schemePattern_def word_char_def


section \<open>The claims\<close>

text \<open>
  Claim C1, as the router has it. When the scheme of the identifier is registered
  read-only, \<open>writeFile\<close> calls no method of the registered backend: the state of the
  backends is returned as it was given. It creates the parent directory of the resolved
  local path on the local disk and writes the content there; it fails exactly when one of
  these two disk operations fails, with that operation's error, and raises no
  \<open>NoPermissions\<close> of its own.
\<close>

theorem C1_readonly_write_goes_to_local_disk:
  "fsProvider (scheme u) = Some r \<Longrightarrow> isReadonly r \<Longrightarrow>
     writeFile nfs fsProvider extensionUri u content (b, d)
       = (case fs_mkdir_recursive nfs (strip_last_segment (fromResource extensionUri u)) d of
            (Inl e, d') \<Rightarrow> Some (Inl e, (b, d'))
          | (Inr _, d') \<Rightarrow>
              (case fs_writeFile nfs (fromResource extensionUri u) content d' of
                 (res, d'') \<Rightarrow> Some (res, (b, d''))))"
  by (simp add: writeFile_def withProvider_def Let_def split: prod.splits sum.splits)

theorem C1_witness:
  "readonly_registry ''ro'' = Some \<lparr>impl = traced table_backend, isReadonly = True\<rparr>
   \<and> writeFile logging_disk readonly_registry None (mk_uri ''ro'' [] ''/docs/f.txt'') [7]
      (([], []), [])
     = Some (Inr (), (([], []), [FsMkdir ''/ro//docs'', FsWriteFile ''/ro//docs/f.txt'' [7]]))"
  using C1_readonly_write_goes_to_local_disk
    [of readonly_registry "mk_uri ''ro'' [] ''/docs/f.txt''"
        "\<lparr>impl = traced table_backend, isReadonly = True\<rparr>" logging_disk None "[7]" "([], [])" "[]"]
  by (simp add: readonly_registry_def mk_uri_def
      logging_disk_def fromResource_def strip_last_segment_def)

theorem C1_counterexample:
  "writeFile logging_disk readonly_registry None (mk_uri ''ro'' [] ''/docs/f.txt'') [7]
      (([], []), [])
     = Some (Inr (), (([], []), [FsMkdir ''/ro//docs'', FsWriteFile ''/ro//docs/f.txt'' [7]]))"
  by (simp add: writeFile_def withProvider_def readonly_registry_def mk_uri_def
      logging_disk_def fromResource_def strip_last_segment_def)

text \<open>
  Claim C2, as the controller has it. \<open>dispose()\<close> runs the disposal steps in the
  fixed order configuration, language features, commands, workspace, window, every
  context subscription, every filesystem-provider handle. The first step that throws
  ends \<open>dispose()\<close> with that error, in the state that step left: no later step is run.
\<close>

theorem C2_dispose_stops_at_first_throw:
  "dispose bundle w = forEach_dispose (disposal_steps bundle) w
   \<and> (\<forall>xs d ys w1 e w2.
        disposal_steps bundle = xs @ d # ys \<and> forEach_dispose xs w = (None, w1)
          \<and> d w1 = (Some e, w2)
        \<longrightarrow> dispose bundle w = (Some e, w2))"
  by (auto simp: dispose_forEach forEach_dispose_stops)

theorem C2_witness:
  "dispose (sample_bundle (step_ok ''configuration'')) []
     = (None, [''configuration'', ''languageFeatures'', ''commands'', ''workspace'',
               ''window'', ''subscription'', ''http'', ''https''])
   \<and> dispose (sample_bundle (step_throws ''configuration'')) []
     = (Some (new_Error ''configuration''), [''configuration''])"
proof -
  have steps: "disposal_steps (sample_bundle (step_throws ''configuration''))
     = [] @ step_throws ''configuration'' #
       [step_ok ''languageFeatures'', step_ok ''commands'', step_ok ''workspace'',
        step_ok ''window'', step_ok ''subscription'', step_ok ''http'', step_ok ''https'']"
    by (simp add: disposal_steps_def sample_bundle_def)
  have none: "forEach_dispose [] ([] :: string list) = (None, [])" by simp
  have thrown: "step_throws ''configuration'' []
     = (Some (new_Error ''configuration''), [''configuration''])"
    by (simp add: step_throws_def)
  have ok: "forEach_dispose (disposal_steps (sample_bundle (step_ok ''configuration''))) []
     = (None, [''configuration'', ''languageFeatures'', ''commands'', ''workspace'',
               ''window'', ''subscription'', ''http'', ''https''])"
    by (simp add: disposal_steps_def sample_bundle_def step_ok_def)
  from C2_dispose_stops_at_first_throw [of "sample_bundle (step_throws ''configuration'')" "[]"]
    C2_dispose_stops_at_first_throw [of "sample_bundle (step_ok ''configuration'')" "[]"]
    steps none thrown ok
  show ?thesis by metis
qed

theorem C2_counterexample:
  "dispose (sample_bundle (step_throws ''configuration'')) []
     = (Some (new_Error ''configuration''), [''configuration''])"
  by (simp add: dispose_def sample_bundle_def then_do_def step_throws_def)

text \<open>
  Claim C3, as the error class has it. For each of the six canonical constructors the
  name label is the provider error code of the constructor followed by
  \<open>(FileSystemError)\<close>, and the part before the first space is that provider code:
  \<open>EntryExists\<close>, \<open>EntryNotFound\<close>, \<open>EntryNotADirectory\<close>, \<open>EntryIsADirectory\<close>,
  \<open>NoPermissions\<close>, \<open>Unavailable\<close>. The \<open>code\<close> property is the name of the constructor,
  so the two agree for \<open>NoPermissions\<close> and \<open>Unavailable\<close> only.
\<close>

theorem C3_label_recovers_provider_code:
  "err_name (FileSystemError_FileExists m) = Some ''EntryExists (FileSystemError)''
   \<and> name_code (FileSystemError_FileExists m) = ''EntryExists''
   \<and> err_code (FileSystemError_FileExists m) = Some ''FileExists''
   \<and> err_name (FileSystemError_FileNotFound m) = Some ''EntryNotFound (FileSystemError)''
   \<and> name_code (FileSystemError_FileNotFound m) = ''EntryNotFound''
   \<and> err_code (FileSystemError_FileNotFound m) = Some ''FileNotFound''
   \<and> err_name (FileSystemError_FileNotADirectory m) = Some ''EntryNotADirectory (FileSystemError)''
   \<and> name_code (FileSystemError_FileNotADirectory m) = ''EntryNotADirectory''
   \<and> err_code (FileSystemError_FileNotADirectory m) = Some ''FileNotADirectory''
   \<and> err_name (FileSystemError_FileIsADirectory m) = Some ''EntryIsADirectory (FileSystemError)''
   \<and> name_code (FileSystemError_FileIsADirectory m) = ''EntryIsADirectory''
   \<and> err_code (FileSystemError_FileIsADirectory m) = Some ''FileIsADirectory''
   \<and> err_name (FileSystemError_NoPermissions m) = Some ''NoPermissions (FileSystemError)''
   \<and> name_code (FileSystemError_NoPermissions m) = ''NoPermissions''
   \<and> err_code (FileSystemError_NoPermissions m) = Some ''NoPermissions''
   \<and> err_name (FileSystemError_Unavailable m) = Some ''Unavailable (FileSystemError)''
   \<and> name_code (FileSystemError_Unavailable m) = ''Unavailable''
   \<and> err_code (FileSystemError_Unavailable m) = Some ''Unavailable''"
  by (simp add: FileSystemError_defs name_code_def split_space_first_def)

theorem C3_counterexample:
  "Some (name_code (FileSystemError_FileNotFound (Some (Message ''x''))))
     \<noteq> err_code (FileSystemError_FileNotFound (Some (Message ''x'')))"
  by (simp add: FileSystemError_defs name_code_def split_space_first_def)

text \<open>
  Claim C4, as the router has it. When no provider is registered for the scheme of the
  identifier, \<open>readFile\<close> raises the scheme-dispatch error, a plain \<open>Error\<close> with the
  message \<open>Unsupported URI scheme\<close> and the scheme, and leaves the backends and the
  local disk as they were: nothing is read from the resolved local path.
\<close>

theorem C4_unregistered_read_rejected:
  "fsProvider (scheme u) = None \<Longrightarrow>
     readFile nfs fsProvider extensionUri u w
       = (Inl (new_Error (''Unsupported URI scheme '' @ scheme u)), w)"
  by (simp add: readFile_def withProvider_def)

theorem C4_witness:
  "readFile logging_disk Map.empty None (mk_uri ''memfs'' [] ''/a/b.txt'') ((), [])
     = (Inl (new_Error ''Unsupported URI scheme memfs''), ((), []))"
  using C4_unregistered_read_rejected
    [of Map.empty "mk_uri ''memfs'' [] ''/a/b.txt''" logging_disk None "((), [])"]
  by (simp add: mk_uri_def)

theorem C4_counterexample:
  "fst (fs_readFile logging_disk (fromResource None (mk_uri ''memfs'' [] ''/a/b.txt'')) [])
     = Inr [1, 2, 3]
   \<and> fst (readFile logging_disk Map.empty None (mk_uri ''memfs'' [] ''/a/b.txt'') ((), []))
     = Inl (new_Error ''Unsupported URI scheme memfs'')
   \<and> snd (readFile logging_disk Map.empty None (mk_uri ''memfs'' [] ''/a/b.txt'') ((), []))
     = ((), [])"
  by (simp add: readFile_def withProvider_def logging_disk_def mk_uri_def)

text \<open>
  Claim C5, at a backend in which no ancestor exists. The target is
  \<open>memfs:/a/b.txt\<close> and every \<open>stat\<close> fails with \<open>FileNotFound\<close>. The walk passes the
  root and goes on asking for it: \<open>mkdirp\<close> does not return.
\<close>

theorem C5_walk_never_ends_without_a_directory:
  "mkdirp missing_backend (mk_uri ''memfs'' [] ''/a/b.txt'') () = None"
proof -
  have "mkdirp_walk missing_backend ''/a/b.txt'' (mk_uri ''memfs'' [] ''/a'') [] () = None"
  proof (cases "mkdirp_walk missing_backend ''/a/b.txt'' (mk_uri ''memfs'' [] ''/a'') [] ()")
    case None
    then show ?thesis .
  next
    case (Some y)
    from missing_walk_no_result [OF this] show ?thesis by simp
  qed
  then show ?thesis
    by (simp add: mkdirp_def memfs_dirname_target) (simp add: mk_uri_def)
qed










text \<open>
  Claim C10. Let the walk reach an ancestor after \<open>k\<close> rounds in which \<open>stat\<close> failed
  with \<open>FileNotFound\<close>, and let \<open>stat\<close> report for it the type Directory combined with
  SymbolicLink. The bitwise test finds the Directory bit, the walk stops there with the
  ancestors recorded so far, and \<open>mkdirp\<close> goes on to create them.
\<close>

theorem C10_symlink_to_directory_stops_walk:
  assumes "path u \<noteq> ''/''" and "dirname u = Inr d0"
    and "climb p k d0 [] b = Some (d, toCreate, b1)"
    and "impl_stat p d b1 = (Inr st, b2)"
    and "type st = FileType_Directory OR FileType_SymbolicLink"
  shows "type st AND FileType_Directory \<noteq> 0
       \<and> mkdirp_walk p (path u) d0 [] b = Some (Inr toCreate, b2)
       \<and> mkdirp p u b = Some (mkdirp_create p toCreate (length toCreate) b2)"
proof -
  have bit: "type st AND FileType_Directory \<noteq> 0"
    using assms(5) by simp
  from walk_stops_at_directory [OF assms(1) assms(4) bit, of toCreate]
    walk_climb [OF assms(1) assms(3)]
  have walk: "mkdirp_walk p (path u) d0 [] b = Some (Inr toCreate, b2)" by simp
  then show ?thesis using bit assms(2) by (simp add: mkdirp_def)
qed

theorem C10_witness:
  "path (mk_uri ''memfs'' [] ''/a/b/c/file.txt'') \<noteq> ''/''
   \<and> dirname (mk_uri ''memfs'' [] ''/a/b/c/file.txt'') = Inr (mk_uri ''memfs'' [] ''/a/b/c'')
   \<and> climb table_backend (Suc (Suc 0)) (mk_uri ''memfs'' [] ''/a/b/c'') [] [(''/a'', 66)]
       = Some (mk_uri ''memfs'' [] ''/a'',
               [mk_uri ''memfs'' [] ''/a/b/c/'', mk_uri ''memfs'' [] ''/a/b/''],
               [(''/a'', 66)])
   \<and> impl_stat table_backend (mk_uri ''memfs'' [] ''/a'') [(''/a'', 66)]
       = (Inr (stat_of_type 66), [(''/a'', 66)])
   \<and> type (stat_of_type 66) = FileType_Directory OR FileType_SymbolicLink
   \<and> mkdirp_walk table_backend (path (mk_uri ''memfs'' [] ''/a/b/c/file.txt''))
        (mk_uri ''memfs'' [] ''/a/b/c'') [] [(''/a'', 66)]
       = Some (Inr [mk_uri ''memfs'' [] ''/a/b/c/'', mk_uri ''memfs'' [] ''/a/b/''],
               [(''/a'', 66)])
   \<and> mkdirp table_backend (mk_uri ''memfs'' [] ''/a/b/c/file.txt'') [(''/a'', 66)]
       = Some (Inr (), [(''/a'', 66), (''/a/b'', 2), (''/a/b/c'', 2)])"
proof -
  have h1: "path (mk_uri ''memfs'' [] ''/a/b/c/file.txt'') \<noteq> ''/''"
    by (simp add: mk_uri_def)
  have h2: "dirname (mk_uri ''memfs'' [] ''/a/b/c/file.txt'') = Inr (mk_uri ''memfs'' [] ''/a/b/c'')"
    by (simp add: URI_defs)
  have h3: "climb table_backend (Suc (Suc 0)) (mk_uri ''memfs'' [] ''/a/b/c'') [] [(''/a'', 66)]
       = Some (mk_uri ''memfs'' [] ''/a'',
               [mk_uri ''memfs'' [] ''/a/b/c/'', mk_uri ''memfs'' [] ''/a/b/''],
               [(''/a'', 66)])"
    by (simp add: table_backend_def entry_path_def has_code_def
        name_code_def split_space_first_def FileSystemError_defs URI_defs)
  have h4: "impl_stat table_backend (mk_uri ''memfs'' [] ''/a'') [(''/a'', 66)]
       = (Inr (stat_of_type 66), [(''/a'', 66)])"
    by (simp add: table_backend_def entry_path_def mk_uri_def)
  have h5: "type (stat_of_type 66) = FileType_Directory OR FileType_SymbolicLink"
    by (simp add: stat_of_type_def)
  have create: "mkdirp_create table_backend
        [mk_uri ''memfs'' [] ''/a/b/c/'', mk_uri ''memfs'' [] ''/a/b/'']
        (length [mk_uri ''memfs'' [] ''/a/b/c/'', mk_uri ''memfs'' [] ''/a/b/''])
        [(''/a'', 66)]
      = (Inr (), [(''/a'', 66), (''/a/b'', 2), (''/a/b/c'', 2)])"
    by (simp add: table_backend_def mk_uri_def entry_path_def)
  from C10_symlink_to_directory_stops_walk [OF h1 h2 h3 h4 h5] h1 h2 h3 h4 h5 create
  show ?thesis by simp
qed

end
